theory Spec2Isabelle
  imports Main "HOL-Library.Multiset"
begin

section \<open>Data model\<close>

text \<open>
  A Python \<open>str\<close> is a sequence of Unicode code points, each in \<open>range(0x110000)\<close>.
  The type \<open>pychar\<close> holds exactly these values (lone surrogates included: Python
  allows \<open>chr(0xD800)\<close>), so a content is a \<open>pychar list\<close>.
\<close>

typedef pychar = "{n::nat. n < 0x110000}"
  morphisms codepoint PyChar
  by (rule exI [of _ 0]) simp

type_synonym pystr = "pychar list"

text \<open>The exceptions that the code raises, or that the built-ins it calls raise.\<close>

datatype error =
    FileNotFoundError string
  | ValueError string
  | OverflowError
  | IsADirectoryError
  | PermissionError
  | UnicodeEncodeError

text \<open>\<open>ord(char)\<close>: the code point of a character, as a Python integer.\<close>

definition py_ord :: "pychar \<Rightarrow> int" where
  "py_ord c = int (codepoint c)"

text \<open>
  \<open>chr(i)\<close>: the character of code point \<open>i\<close>. It raises \<open>ValueError\<close> outside
  \<open>range(0x110000)\<close>; CPython up to 3.13 converts its argument to a C \<open>int\<close> of
  32 bits first and raises \<open>OverflowError\<close> when \<open>i\<close> does not fit. Either way
  \<open>chr\<close> returns a character exactly for the code points.
\<close>

definition py_chr :: "int \<Rightarrow> error + pychar" where
  "py_chr i =
     (if i < - (2 ^ 31) \<or> 2 ^ 31 \<le> i then Inl OverflowError
      else if i < 0 \<or> 0x110000 \<le> i then Inl (ValueError ''chr() arg not in range(0x110000)'')
      else Inr (PyChar (nat i)))"

section \<open>The substitution cipher\<close>

text \<open>
  \<open>substitute_chars\<close> (lines 24 to 38) starts from the empty string and appends
  \<open>chr(ord(char) + key)\<close> for each character in turn. The first \<open>chr\<close> that raises
  ends the call with that exception.
\<close>

fun substitute_loop :: "pystr \<Rightarrow> int \<Rightarrow> pystr \<Rightarrow> error + pystr" where
  "substitute_loop [] key obfuscated_content = Inr obfuscated_content"
| "substitute_loop (char # rest) key obfuscated_content =
     (case py_chr (py_ord char + key) of
        Inl e \<Rightarrow> Inl e
      | Inr c \<Rightarrow> substitute_loop rest key (obfuscated_content @ [c]))"

definition substitute_chars :: "pystr \<Rightarrow> int \<Rightarrow> error + pystr" where
  "substitute_chars content key = substitute_loop content key []"

section \<open>The shuffle\<close>

text \<open>
  \<open>random.shuffle\<close> draws from the process-wide generator. The generator is a
  stream of raw draws, and \<open>randbelow n\<close> reduces the next draw to \<open>range(n)\<close> and
  advances the stream.
\<close>

type_synonym rng = "nat \<Rightarrow> nat"

definition randbelow :: "rng \<Rightarrow> nat \<Rightarrow> nat \<times> rng" where
  "randbelow r n = (r 0 mod n, \<lambda>k. r (Suc k))"

text \<open>
  The library's loop is
  \<^verbatim>\<open>for i in reversed(range(1, len(x))): j = randbelow(i + 1); x[i], x[j] = x[j], x[i]\<close>.
  \<open>shuffle_from i\<close> runs it for the indices \<open>i, i - 1, ..., 1\<close>.
\<close>

fun shuffle_from :: "nat \<Rightarrow> 'a list \<Rightarrow> rng \<Rightarrow> 'a list \<times> rng" where
  "shuffle_from 0 x r = (x, r)"
| "shuffle_from (Suc i) x r =
     (case randbelow r (Suc i + 1) of
        (j, r') \<Rightarrow> shuffle_from i (x[Suc i := x ! j, j := x ! Suc i]) r')"

definition shuffle :: "'a list \<Rightarrow> rng \<Rightarrow> 'a list \<times> rng" where
  "shuffle x r = shuffle_from (length x - 1) x r"

text \<open>
  \<open>shuffle_chars\<close> (lines 40 to 52): \<open>list(content)\<close> and \<open>''.join\<close> convert between
  a string and the list of its characters, which are the same value here.
\<close>

definition shuffle_chars :: "pystr \<Rightarrow> rng \<Rightarrow> pystr \<times> rng" where
  "shuffle_chars content r = shuffle content r"

section \<open>Files\<close>

text \<open>
  The file system maps a path to a text file or a directory. A file holds the text that
  reading it returns. What else makes opening a path fail is given with the file system:
  \<open>read_error\<close> has the exception that opening a file for reading, or reading and
  decoding it, raises (\<open>PermissionError\<close> for a file that may not be read), and
  \<open>write_error\<close> the exception that opening a path for writing raises
  (\<open>FileNotFoundError\<close> for a missing parent directory, \<open>PermissionError\<close> for a
  place that may not be written). The state of a run is the file system with these
  and the random generator.
\<close>

type_synonym path = string

datatype node = File pystr | Directory

record world =
  files :: "path \<rightharpoonup> node"
  read_error :: "path \<rightharpoonup> error"
  write_error :: "path \<rightharpoonup> error"
  rand :: rng

text \<open>Lines 81 and 82: \<open>open(input_file_path, 'r')\<close> and \<open>infile.read()\<close>.\<close>

definition read_text :: "world \<Rightarrow> path \<Rightarrow> error + pystr" where
  "read_text w p =
     (case files w p of
        None \<Rightarrow> Inl (FileNotFoundError p)
      | Some Directory \<Rightarrow> Inl IsADirectoryError
      | Some (File content) \<Rightarrow>
          (case read_error w p of Some e \<Rightarrow> Inl e | None \<Rightarrow> Inr content))"

text \<open>
  Line 94: \<open>open(output_file_path, 'w')\<close> raises, or it creates the file or
  truncates the one that is there, and the file is empty from then on.
\<close>

definition open_write :: "world \<Rightarrow> path \<Rightarrow> error + (path \<rightharpoonup> node)" where
  "open_write w p =
     (case files w p of
        Some Directory \<Rightarrow> Inl IsADirectoryError
      | _ \<Rightarrow>
         (case write_error w p of
            Some e \<Rightarrow> Inl e
          | None \<Rightarrow> Inr ((files w)(p \<mapsto> File []))))"

text \<open>
  Lines 94 and 95: after the file is open, \<open>outfile.write\<close> encodes the whole string
  in the platform's text encoding and stores it. \<open>enc c\<close> tells whether that encoding
  has the character \<open>c\<close>; a string with a character it lacks raises
  \<open>UnicodeEncodeError\<close> with the file already open, hence empty.
\<close>

definition write_text ::
  "(pychar \<Rightarrow> bool) \<Rightarrow> world \<Rightarrow> path \<Rightarrow> pystr \<Rightarrow> (error + unit) \<times> (path \<rightharpoonup> node)" where
  "write_text enc w p s =
     (case open_write w p of
        Inl e \<Rightarrow> (Inl e, files w)
      | Inr fs \<Rightarrow>
         (if list_all enc s then (Inr (), fs(p \<mapsto> File s))
          else (Inl UnicodeEncodeError, fs)))"

text \<open>UTF-8 has every code point but the surrogates \<open>0xD800\<close> to \<open>0xDFFF\<close>.\<close>

definition utf8 :: "pychar \<Rightarrow> bool" where
  "utf8 c = (codepoint c < 0xD800 \<or> 0xDFFF < codepoint c)"

section \<open>The orchestrator\<close>

text \<open>
  Lines 84 to 92: the value of \<open>obfuscated_content\<close> before the write, and the
  generator after it.
\<close>

definition transforms :: "bool \<Rightarrow> bool \<Rightarrow> int \<Rightarrow> pystr \<Rightarrow> rng \<Rightarrow> error + pystr \<times> rng" where
  "transforms substitution shuffle_flag key content r =
     (case (if substitution then substitute_chars content key else Inr content) of
        Inl e \<Rightarrow> Inl e
      | Inr obfuscated_content \<Rightarrow>
          Inr (if shuffle_flag then shuffle_chars obfuscated_content r
               else (obfuscated_content, r)))"

text \<open>
  \<open>obfuscate_file\<close> (lines 55 to 110). Every \<open>except\<close> clause logs and raises the
  exception again, so the call ends with the exception that was raised.
\<close>

definition obfuscate_file ::
  "(pychar \<Rightarrow> bool) \<Rightarrow> path \<Rightarrow> path \<Rightarrow> bool \<Rightarrow> bool \<Rightarrow> int \<Rightarrow> world \<Rightarrow> (error + unit) \<times> world" where
  "obfuscate_file enc input_file_path output_file_path substitution shuffle_flag key w =
     (if files w input_file_path = None then
        (Inl (FileNotFoundError (''Input file not found: '' @ input_file_path)), w)
      else if \<not> substitution \<and> \<not> shuffle_flag then
        (Inl (ValueError ''No obfuscation method selected.  Use -s or -r to enable.''), w)
      else
        (case read_text w input_file_path of
           Inl e \<Rightarrow> (Inl e, w)
         | Inr content \<Rightarrow>
            (case transforms substitution shuffle_flag key content (rand w) of
               Inl e \<Rightarrow> (Inl e, w)
             | Inr (obfuscated_content, r) \<Rightarrow>
                (case write_text enc w output_file_path obfuscated_content of
                   (res, fs) \<Rightarrow> (res, w\<lparr>files := fs, rand := r\<rparr>)))))"

section \<open>Auxiliary predicates\<close>

text \<open>\<open>in_range i\<close>: the integer \<open>i\<close> is a code point, that is, \<open>chr(i)\<close> returns.\<close>

definition in_range :: "int \<Rightarrow> bool" where
  "in_range i = (0 \<le> i \<and> i < 0x110000)"

text \<open>The two exceptions of \<open>chr\<close>.\<close>

definition chr_error :: "error \<Rightarrow> bool" where
  "chr_error e = (e = OverflowError \<or> e = ValueError ''chr() arg not in range(0x110000)'')"

section \<open>Properties of \<open>chr\<close> and \<open>ord\<close>\<close>

lemma py_chr_in_range: "in_range i \<Longrightarrow> py_chr i = Inr (PyChar (nat i))"
  by (simp add: in_range_def py_chr_def)

lemma py_chr_error: "\<not> in_range i \<Longrightarrow> \<exists>e. py_chr i = Inl e \<and> chr_error e"
  by (auto simp add: in_range_def py_chr_def chr_error_def)

lemma py_ord_in_range: "in_range (py_ord c)"
  using codepoint [of c] by (simp add: in_range_def py_ord_def)

lemma py_ord_py_chr:
  assumes "in_range i"
  shows "py_ord (PyChar (nat i)) = i"
proof -
  from assms have "nat i < 0x110000" and "0 \<le> i"
    unfolding in_range_def by linarith+
  then show ?thesis
    by (simp add: py_ord_def PyChar_inverse)
qed

section \<open>Properties of the substitution cipher\<close>

text \<open>
  The loop returns exactly when every shifted code point is in range, and then it has
  appended the shifted characters in order.
\<close>

lemma substitute_loop_ok:
  "list_all (\<lambda>c. in_range (py_ord c + key)) xs \<Longrightarrow>
   substitute_loop xs key acc = Inr (acc @ map (\<lambda>c. PyChar (nat (py_ord c + key))) xs)"
  by (induction xs arbitrary: acc) (simp_all add: py_chr_in_range)

lemma substitute_loop_fail:
  "\<not> list_all (\<lambda>c. in_range (py_ord c + key)) xs \<Longrightarrow>
   \<exists>e. substitute_loop xs key acc = Inl e \<and> chr_error e"
proof (induction xs arbitrary: acc)
  case Nil
  then show ?case by simp
next
  case (Cons x xs)
  show ?case
  proof (cases "in_range (py_ord x + key)")
    case True
    with Cons.prems have "\<not> list_all (\<lambda>c. in_range (py_ord c + key)) xs"
      by simp
    from Cons.IH [OF this] True show ?thesis
      by (simp add: py_chr_in_range)
  next
    case False
    from py_chr_error [OF this] show ?thesis
      by auto
  qed
qed

lemma substitute_chars_ok:
  "list_all (\<lambda>c. in_range (py_ord c + key)) xs \<Longrightarrow>
   substitute_chars xs key = Inr (map (\<lambda>c. PyChar (nat (py_ord c + key))) xs)"
  by (simp add: substitute_chars_def substitute_loop_ok)

lemma substitute_chars_Inr:
  assumes "substitute_chars xs key = Inr out"
  shows "list_all (\<lambda>c. in_range (py_ord c + key)) xs"
proof (rule ccontr)
  assume "\<not> list_all (\<lambda>c. in_range (py_ord c + key)) xs"
  from substitute_loop_fail [OF this, of "[]"] assms show False
    by (auto simp add: substitute_chars_def)
qed

text \<open>
  C1, as the code has it: when every \<open>ord(c) + K\<close> is a code point, the substitution
  returns a string of the same length whose character at each position \<open>i\<close> has the
  code point \<open>ord(C[i]) + K\<close>, neither clamped nor wrapped.
\<close>

theorem shift_adds_key:
  assumes "list_all (\<lambda>c. in_range (py_ord c + K)) C"
  shows "\<exists>out. substitute_chars C K = Inr out \<and> length out = length C \<and>
           (\<forall>i<length C. py_ord (out ! i) = py_ord (C ! i) + K)"
proof -
  let ?out = "map (\<lambda>c. PyChar (nat (py_ord c + K))) C"
  have "py_ord (?out ! i) = py_ord (C ! i) + K" if "i < length C" for i
  proof -
    from that assms have "in_range (py_ord (C ! i) + K)"
      by (simp add: list_all_length)
    with that show ?thesis
      by (simp add: py_ord_py_chr)
  qed
  with substitute_chars_ok [OF assms] show ?thesis
    by simp
qed

text \<open>\<open>"abc"\<close> shifted by 1 is \<open>"bcd"\<close>.\<close>

theorem shift_adds_key_witness:
  "list_all (\<lambda>c. in_range (py_ord c + 1)) [PyChar 97, PyChar 98, PyChar 99] \<and>
   substitute_chars [PyChar 97, PyChar 98, PyChar 99] 1 = Inr [PyChar 98, PyChar 99, PyChar 100]"
  using shift_adds_key [of 1 "[PyChar 97, PyChar 98, PyChar 99]"]
  by (simp add: substitute_chars_def py_chr_def py_ord_def in_range_def PyChar_inverse)

text \<open>
  C1 as stated, for every key, fails: \<open>"a"\<close> with key \<open>-98\<close> asks for \<open>chr(-1)\<close>,
  and the call raises instead of returning a one-character string.
\<close>

theorem shift_adds_key_counterexample:
  "substitute_chars [PyChar 97] (- 98) = Inl (ValueError ''chr() arg not in range(0x110000)'')"
  by (simp add: substitute_chars_def py_chr_def py_ord_def PyChar_inverse)

text \<open>
  C6, as the code has it: when some \<open>ord(c) + K\<close> is not a code point, the substitution
  returns nothing; it ends with the exception of \<open>chr\<close>.
\<close>

theorem shift_fails_out_of_range:
  assumes "\<not> list_all (\<lambda>c. in_range (py_ord c + K)) C"
  shows "\<exists>e. substitute_chars C K = Inl e \<and>
           (e = OverflowError \<or> e = ValueError ''chr() arg not in range(0x110000)'')"
  using substitute_loop_fail [OF assms, of "[]"]
  by (simp add: substitute_chars_def chr_error_def)

text \<open>The key 1114000 takes the \<open>"z"\<close> of \<open>"az"\<close> past the last code point.\<close>

theorem shift_fails_out_of_range_witness:
  "list_all (\<lambda>c. in_range (py_ord c + 1114000)) [PyChar 97, PyChar 122] = False \<and>
   substitute_chars [PyChar 97, PyChar 122] 1114000 =
     Inl (ValueError ''chr() arg not in range(0x110000)'')"
  using shift_fails_out_of_range [of 1114000 "[PyChar 97, PyChar 122]"]
  by (simp add: substitute_chars_def py_chr_def py_ord_def in_range_def PyChar_inverse)

text \<open>
  C6 as stated fails: \<open>"A"\<close> followed by the last code point, with key 1, gives no
  output string at all.
\<close>

theorem shift_unchecked_counterexample:
  "substitute_chars [PyChar 65, PyChar 0x10FFFF] 1 =
     Inl (ValueError ''chr() arg not in range(0x110000)'')"
  by (simp add: substitute_chars_def py_chr_def py_ord_def PyChar_inverse)

text \<open>
  C7, as the code has it: whenever the substitution returns, its result is as long as
  the content; it returns exactly when every \<open>ord(c) + K\<close> is a code point; and the
  empty content gives the empty string for every key.
\<close>

theorem shift_length:
  "(\<forall>out. substitute_chars C K = Inr out \<longrightarrow> length out = length C) \<and>
   ((\<exists>out. substitute_chars C K = Inr out) = list_all (\<lambda>c. in_range (py_ord c + K)) C) \<and>
   substitute_chars [] K = Inr []"
proof (intro conjI allI impI)
  fix out
  assume out: "substitute_chars C K = Inr out"
  from substitute_chars_ok [OF substitute_chars_Inr [OF out]] out
  show "length out = length C"
    by auto
next
  show "(\<exists>out. substitute_chars C K = Inr out) = list_all (\<lambda>c. in_range (py_ord c + K)) C"
    using substitute_chars_ok substitute_chars_Inr by blast
next
  show "substitute_chars [] K = Inr []"
    by (simp add: substitute_chars_def)
qed

theorem shift_length_witness:
  "substitute_chars [PyChar 120, PyChar 121] 3 = Inr [PyChar 123, PyChar 124] \<and>
   length [PyChar 123, PyChar 124] = length [PyChar 120, PyChar 121] \<and>
   list_all (\<lambda>c. in_range (py_ord c + 3)) [PyChar 120, PyChar 121]"
proof -
  have r: "substitute_chars [PyChar 120, PyChar 121] 3 = Inr [PyChar 123, PyChar 124]"
    by (simp add: substitute_chars_def py_chr_def py_ord_def PyChar_inverse)
  from shift_length [of "[PyChar 120, PyChar 121]" 3] r show ?thesis
    by auto
qed

text \<open>
  C7 as stated, for every key, fails: the one-character content \<open>"\x00"\<close> with key
  \<open>-1\<close> has no output whose length could be 1.
\<close>

theorem shift_length_counterexample:
  "substitute_chars [PyChar 0] (- 1) = Inl (ValueError ''chr() arg not in range(0x110000)'')"
  by (simp add: substitute_chars_def py_chr_def py_ord_def PyChar_inverse)

text \<open>
  C9: when every \<open>ord(c) + K\<close> is a code point, substituting with \<open>K\<close> and then with
  \<open>-K\<close> returns the content unchanged.
\<close>

theorem shift_inverse:
  assumes "list_all (\<lambda>c. in_range (py_ord c + K)) C"
  shows "\<exists>D. substitute_chars C K = Inr D \<and> substitute_chars D (- K) = Inr C"
proof -
  let ?D = "map (\<lambda>c. PyChar (nat (py_ord c + K))) C"
  have shifted: "py_ord d + - K = py_ord c"
    if "c \<in> set C" and "d = PyChar (nat (py_ord c + K))" for c d
  proof -
    from that assms have "in_range (py_ord c + K)"
      by (simp add: list_all_iff)
    with that show ?thesis
      by (simp add: py_ord_py_chr)
  qed
  have "list_all (\<lambda>d. in_range (py_ord d + - K)) ?D"
    using shifted by (simp add: list_all_iff py_ord_in_range)
  then have "substitute_chars ?D (- K) = Inr (map (\<lambda>d. PyChar (nat (py_ord d + - K))) ?D)"
    by (rule substitute_chars_ok)
  also have "map (\<lambda>d. PyChar (nat (py_ord d + - K))) ?D = C"
  proof -
    have "PyChar (nat (py_ord (PyChar (nat (py_ord c + K))) + - K)) = c" if "c \<in> set C" for c
      using shifted [OF that refl] by (simp add: py_ord_def codepoint_inverse)
    then show ?thesis
      by (simp add: map_idI)
  qed
  finally show ?thesis
    using substitute_chars_ok [OF assms] by simp
qed

theorem shift_inverse_witness:
  "list_all (\<lambda>c. in_range (py_ord c + 42)) [PyChar 72, PyChar 105] \<and>
   substitute_chars [PyChar 72, PyChar 105] 42 = Inr [PyChar 114, PyChar 147] \<and>
   substitute_chars [PyChar 114, PyChar 147] (- 42) = Inr [PyChar 72, PyChar 105]"
proof -
  have r: "substitute_chars [PyChar 72, PyChar 105] 42 = Inr [PyChar 114, PyChar 147]"
    by (simp add: substitute_chars_def py_chr_def py_ord_def PyChar_inverse)
  have h: "list_all (\<lambda>c. in_range (py_ord c + 42)) [PyChar 72, PyChar 105]"
    by (simp add: py_ord_def in_range_def PyChar_inverse)
  from shift_inverse [OF h] r h show ?thesis
    by auto
qed

text \<open>C10: the substitution with key 0 returns the content itself.\<close>

theorem shift_zero: "substitute_chars C 0 = Inr C"
proof -
  have "list_all (\<lambda>c. in_range (py_ord c + 0)) C"
    by (simp add: list_all_iff py_ord_in_range)
  from substitute_chars_ok [OF this] show ?thesis
    by (simp add: py_ord_def codepoint_inverse)
qed

section \<open>Properties of the shuffle\<close>

lemma randbelow_less: "0 < n \<Longrightarrow> fst (randbelow r n) < n"
  by (simp add: randbelow_def)

text \<open>
  Each pass of the loop exchanges two positions of the list, both inside it, so the
  elements stay the same.
\<close>

lemma shuffle_from_mset:
  "i < length x \<or> i = 0 \<Longrightarrow> mset (fst (shuffle_from i x r)) = mset x"
proof (induction i arbitrary: x r)
  case 0
  then show ?case by simp
next
  case (Suc i)
  obtain j r' where jr: "randbelow r (Suc i + 1) = (j, r')"
    by (cases "randbelow r (Suc i + 1)")
  from Suc.prems have len: "Suc i < length x"
    by simp
  from randbelow_less [of "Suc i + 1" r] jr have "j < Suc i + 1"
    by simp
  with len have j: "j < length x"
    by simp
  let ?x = "x[Suc i := x ! j, j := x ! Suc i]"
  from len have "i < length ?x \<or> i = 0"
    by simp
  from Suc.IH [OF this, of r'] have "mset (fst (shuffle_from i ?x r')) = mset ?x" .
  also from mset_swap [OF j len] have "mset ?x = mset x" .
  finally show ?case
    using jr by simp
qed

lemma shuffle_mset: "mset (fst (shuffle x r)) = mset x"
proof -
  have "length x - 1 < length x \<or> length x - 1 = 0"
    by (cases x) simp_all
  then show ?thesis
    unfolding shuffle_def by (rule shuffle_from_mset)
qed

text \<open>
  C2: for every content and every state of the generator, the shuffled string has the
  characters of the content with their multiplicities, hence its length; the empty
  string and a one-character string come back unchanged, without a draw.
\<close>

theorem shuffle_chars_permutes:
  "mset (fst (shuffle_chars C r)) = mset C \<and>
   length (fst (shuffle_chars C r)) = length C \<and>
   shuffle_chars [] r = ([], r) \<and>
   shuffle_chars [c] r = ([c], r)"
proof -
  have m: "mset (fst (shuffle_chars C r)) = mset C"
    by (simp add: shuffle_chars_def shuffle_mset)
  from mset_eq_length [OF m] m show ?thesis
    by (simp add: shuffle_chars_def shuffle_def)
qed

section \<open>Properties of the orchestrator\<close>





text \<open>
  C3, as the code has it: with both flags false the call fails without reading or
  writing any file and leaves the state as it was; the exception is the \<open>ValueError\<close>
  of the configuration check when the input path exists, and \<open>FileNotFoundError\<close>
  when it does not, because the existence test comes first.
\<close>

theorem config_check:
  "obfuscate_file enc inp out False False key w =
     (if files w inp = None then Inl (FileNotFoundError (''Input file not found: '' @ inp))
      else Inl (ValueError ''No obfuscation method selected.  Use -s or -r to enable.''), w)"
  by (simp add: obfuscate_file_def)

text \<open>
  C3 as stated, for every input path, fails: with no file at the input path and both
  flags false the exception is \<open>FileNotFoundError\<close>, not the configuration error.
\<close>

theorem config_check_counterexample:
  "obfuscate_file utf8 ''in.txt'' ''out.txt'' False False 42
     \<lparr>files = Map.empty, read_error = Map.empty, write_error = Map.empty, rand = (\<lambda>k. 0)\<rparr> =
   (Inl (FileNotFoundError ''Input file not found: in.txt''),
    \<lparr>files = Map.empty, read_error = Map.empty, write_error = Map.empty, rand = (\<lambda>k. 0)\<rparr>)"
  by (simp add: obfuscate_file_def)

text \<open>
  C5: when nothing exists at the input path, the call fails with \<open>FileNotFoundError\<close>
  for every flag and key, and the state (every file, the output file included) is as
  it was.
\<close>

theorem missing_input:
  assumes "files w inp = None"
  shows "obfuscate_file enc inp out substitution shuffle_flag key w =
           (Inl (FileNotFoundError (''Input file not found: '' @ inp)), w)"
  using assms by (simp add: obfuscate_file_def)

text \<open>Both flags set and an output file that is already there: it keeps its content.\<close>

theorem missing_input_witness:
  "files \<lparr>files = [''out.txt'' \<mapsto> File [PyChar 111]], read_error = Map.empty,
      write_error = Map.empty, rand = (\<lambda>k. 0)\<rparr> ''in.txt'' = None \<and>
   obfuscate_file utf8 ''in.txt'' ''out.txt'' True True 42
     \<lparr>files = [''out.txt'' \<mapsto> File [PyChar 111]], read_error = Map.empty,
      write_error = Map.empty, rand = (\<lambda>k. 0)\<rparr> =
   (Inl (FileNotFoundError ''Input file not found: in.txt''),
    \<lparr>files = [''out.txt'' \<mapsto> File [PyChar 111]], read_error = Map.empty,
      write_error = Map.empty, rand = (\<lambda>k. 0)\<rparr>)"
  using missing_input [of "\<lparr>files = [''out.txt'' \<mapsto> File [PyChar 111]], read_error = Map.empty,
      write_error = Map.empty, rand = (\<lambda>k. 0)\<rparr>"
      "''in.txt''" utf8 "''out.txt''" True True 42]
  by simp







end
